theory Spec2Isabelle
  imports Complex_Main "HOL-Library.Char_ord" "HOL-Library.List_Lexorder"
begin

section \<open>Data model\<close>

text \<open>
  JavaScript numbers are modelled as exact reals: sums, differences and comparisons are
  the mathematical ones, without rounding. A property that may be absent from an object
  (\<open>undefined\<close>) is an \<open>option\<close>. Records cannot share field names, so the fields of a
  transaction carry the prefix \<open>t_\<close> and those of a budget the prefix \<open>b_\<close>.
\<close>

record transaction =
  t_id :: string
  t_amount :: real
  t_date :: "string option"
  t_description :: string
  t_category :: "string option"
  t_createdAt :: "string option"
  t_updatedAt :: "string option"

record budget =
  b_id :: string
  b_month :: string
  b_category :: string
  b_amount :: real
  b_createdAt :: "string option"
  b_updatedAt :: "string option"

text \<open>
  \<open>Partial<Transaction>\<close>, the second argument of \<open>updateTransaction\<close>: every property of
  a transaction may be present or not; a present property overrides the stored one in the
  object spread \<open>{...transaction, ...updatedData}\<close>.
\<close>

record patch =
  p_id :: "string option"
  p_amount :: "real option"
  p_date :: "string option option"
  p_description :: "string option"
  p_category :: "string option option"
  p_createdAt :: "string option option"
  p_updatedAt :: "string option option"

record stats =
  totalTransactions :: nat
  income :: real
  expenses :: real
  balance :: real

datatype store_error = NotFound string

section \<open>Array helpers\<close>

text \<open>\<open>Array.prototype.findIndex\<close>; the result \<open>-1\<close> is \<open>None\<close>.\<close>

fun findIndex :: "('a \<Rightarrow> bool) \<Rightarrow> 'a list \<Rightarrow> nat option" where
  "findIndex P [] = None"
| "findIndex P (x # xs) =
     (if P x then Some 0 else (case findIndex P xs of None \<Rightarrow> None | Some i \<Rightarrow> Some (Suc i)))"

section \<open>Transaction store (src/lib/transactionContext.js)\<close>

text \<open>
  The state setter \<open>setTransactions(prev => ...)\<close> is modelled by passing the list \<open>prev\<close>
  and returning the new list; the value the promise settles with is returned beside it:
  \<open>Inl\<close> for \<open>reject\<close>, \<open>Inr\<close> for \<open>resolve\<close>. The current time
  \<open>new Date().toISOString()\<close> is the argument \<open>timestamp\<close>.
\<close>

definition mergeTransaction :: "transaction \<Rightarrow> patch \<Rightarrow> string \<Rightarrow> transaction" where
  "mergeTransaction transaction updatedData timestamp =
     \<lparr> t_id = (case p_id updatedData of None \<Rightarrow> t_id transaction | Some v \<Rightarrow> v),
       t_amount = (case p_amount updatedData of None \<Rightarrow> t_amount transaction | Some v \<Rightarrow> v),
       t_date = (case p_date updatedData of None \<Rightarrow> t_date transaction | Some v \<Rightarrow> v),
       t_description =
         (case p_description updatedData of None \<Rightarrow> t_description transaction | Some v \<Rightarrow> v),
       t_category = (case p_category updatedData of None \<Rightarrow> t_category transaction | Some v \<Rightarrow> v),
       t_createdAt =
         (case p_createdAt updatedData of None \<Rightarrow> t_createdAt transaction | Some v \<Rightarrow> v),
       t_updatedAt = Some timestamp \<rparr>"

definition updateTransaction ::
  "transaction list \<Rightarrow> string \<Rightarrow> patch \<Rightarrow> string
     \<Rightarrow> transaction list \<times> (store_error + transaction option)" where
  "updateTransaction prev i updatedData timestamp =
     (case find (\<lambda>t. t_id t = i) prev of
        None \<Rightarrow> (prev, Inl (NotFound i))
      | Some existingTransaction \<Rightarrow>
          (let updatedTransactions =
                 map (\<lambda>transaction.
                        if t_id transaction = i
                        then mergeTransaction transaction updatedData timestamp
                        else transaction) prev
           in (updatedTransactions, Inr (find (\<lambda>t. t_id t = i) updatedTransactions))))"

definition deleteTransaction :: "transaction list \<Rightarrow> string \<Rightarrow> transaction list \<times> bool" where
  "deleteTransaction prev i =
     (case findIndex (\<lambda>t. t_id t = i) prev of
        None \<Rightarrow> (prev, False)
      | Some existingIndex \<Rightarrow> (filter (\<lambda>transaction. t_id transaction \<noteq> i) prev, True))"

definition getStats :: "transaction list \<Rightarrow> stats" where
  "getStats transactions =
     (let income = foldl (\<lambda>sum t. sum + t_amount t) 0
                     (filter (\<lambda>t. t_amount t > 0) transactions);
          expenses = foldl (\<lambda>sum t. sum + \<bar>t_amount t\<bar>) 0
                       (filter (\<lambda>t. t_amount t < 0) transactions);
          balance = income - expenses
      in \<lparr> totalTransactions = length transactions, income = income,
           expenses = expenses, balance = balance \<rparr>)"

section \<open>Budget store (budget context)\<close>

text \<open>
  \<open>deleteBudget\<close> works on the updater argument \<open>prev\<close> alone, like \<open>deleteTransaction\<close>.
\<close>

definition deleteBudget :: "budget list \<Rightarrow> string \<Rightarrow> budget list \<times> bool" where
  "deleteBudget prev i =
     (case findIndex (\<lambda>b. b_id b = i) prev of
        None \<Rightarrow> (prev, False)
      | Some existingIndex \<Rightarrow> (filter (\<lambda>budget. b_id budget \<noteq> i) prev, True))"

text \<open>
  \<open>addOrUpdateBudget\<close> reads two lists: \<open>budgets\<close>, the state captured by the callback
  when it was created (dependency list \<open>[budgets]\<close>), in which it looks for the entry, and
  \<open>prev\<close>, the argument of the updater, which it rewrites. The draft is
  \<open>Omit<Budget, 'id' | 'createdAt' | 'updatedAt'>\<close>. The id of a new budget is built from
  \<open>Date.now()\<close> (the argument \<open>now\<close>) and \<open>Math.random().toString(36)\<close> (the argument
  \<open>random36\<close>). Writing \<open>updatedBudgets[existingBudgetIndex]\<close> beyond the end of \<open>prev\<close>
  leaves an array with holes and an object without id, month and category, which is no
  list of budgets: the new state is then \<open>None\<close>.
\<close>

record budgetDraft =
  d_month :: string
  d_category :: string
  d_amount :: real

fun showNat :: "nat \<Rightarrow> string" where
  "showNat n =
     (if n < 10 then [''0123456789'' ! n]
      else showNat (n div 10) @ [''0123456789'' ! (n mod 10)])"

declare showNat.simps [simp del]

definition substring :: "nat \<Rightarrow> nat \<Rightarrow> string \<Rightarrow> string" where
  "substring from to s = take (to - from) (drop from s)"

definition budgetId :: "nat \<Rightarrow> string \<Rightarrow> string" where
  "budgetId now random36 = ''bgt_'' @ showNat now @ ''_'' @ substring 2 9 random36"

definition addOrUpdateBudget ::
  "budget list \<Rightarrow> budget list \<Rightarrow> budgetDraft \<Rightarrow> string \<Rightarrow> nat \<Rightarrow> string
     \<Rightarrow> budget list option \<times> budget" where
  "addOrUpdateBudget budgets prev budget timestamp now random36 =
     (case findIndex (\<lambda>b. b_category b = d_category budget \<and> b_month b = d_month budget)
             budgets of
        Some existingBudgetIndex \<Rightarrow>
          ((if existingBudgetIndex < length prev
            then Some (prev[existingBudgetIndex :=
                        (prev ! existingBudgetIndex)
                          \<lparr>b_amount := d_amount budget, b_updatedAt := Some timestamp\<rparr>])
            else None),
           (budgets ! existingBudgetIndex)
             \<lparr>b_amount := d_amount budget, b_updatedAt := Some timestamp\<rparr>)
      | None \<Rightarrow>
          (let newBudget =
                 \<lparr> b_id = budgetId now random36, b_month = d_month budget,
                   b_category = d_category budget, b_amount = d_amount budget,
                   b_createdAt = Some timestamp, b_updatedAt = Some timestamp \<rparr>
           in (Some (prev @ [newBudget]), newBudget)))"

text \<open>The invariant of the budget list: at most one budget per (month, category) pair.\<close>

definition onePerPair :: "budget list \<Rightarrow> bool" where
  "onePerPair bs = distinct (map (\<lambda>b. (b_month b, b_category b)) bs)"

section \<open>Aggregation engine (lib/utils)\<close>

subsection \<open>The date library\<close>








subsection \<open>groupTransactionsByMonth\<close>








subsection \<open>Category totals\<close>

text \<open>
  The object \<open>categoryTotals\<close> is an association list in insertion order. Category names
  are taken to be ordinary labels such as those of \<open>TRANSACTION_CATEGORIES\<close>: neither
  array indices, which \<open>Object.keys\<close> lists first, nor names of members of
  \<open>Object.prototype\<close>.
\<close>

text \<open>\<open>transaction.category || 'Other'\<close>: an absent or empty category is falsy.\<close>

definition categoryOrOther :: "transaction \<Rightarrow> string" where
  "categoryOrOther transaction =
     (case t_category transaction of
        None \<Rightarrow> ''Other''
      | Some c \<Rightarrow> if c = [] then ''Other'' else c)"

text \<open>\<open>categoryTotals[category] = (categoryTotals[category] || 0) + x\<close>\<close>

fun addTo :: "(string \<times> real) list \<Rightarrow> string \<Rightarrow> real \<Rightarrow> (string \<times> real) list" where
  "addTo [] category x = [(category, 0 + x)]"
| "addTo ((k, v) # kvs) category x =
     (if k = category then (k, v + x) # kvs else (k, v) # addTo kvs category x)"

definition sumByCategory :: "transaction list \<Rightarrow> (string \<times> real) list" where
  "sumByCategory expenseList =
     foldl (\<lambda>categoryTotals transaction.
              addTo categoryTotals (categoryOrOther transaction) \<bar>t_amount transaction\<bar>)
       [] expenseList"

record categoryTotal =
  ct_name :: string
  ct_value :: real

definition calculateCategoryTotals :: "transaction list \<Rightarrow> categoryTotal list" where
  "calculateCategoryTotals transactions =
     (if transactions = [] then []
      else (let expenses = filter (\<lambda>t. t_amount t < 0) transactions
            in map (\<lambda>(n, v). \<lparr> ct_name = n, ct_value = v \<rparr>) (sumByCategory expenses)))"




subsection \<open>compareBudgetWithActual\<close>

record comparison =
  category :: string
  budgeted :: real
  actual :: real
  difference :: real




subsection \<open>generateInsights\<close>

text \<open>
  An insight text is a template literal filled with a category, amounts rendered by
  \<open>formatCurrency\<close> (\<open>Intl.NumberFormat\<close>) and a rounded percentage. The model keeps the
  template (one constructor each) and the values put into it. A percentage is
  \<open>Math.round((a / b) * 100)\<close>; dividing by zero yields \<open>NaN\<close> or an infinity, which
  \<open>Math.round\<close> returns as it is.
\<close>

datatype severity = info | warning | success

datatype percent = Percent int | NaN_or_Infinity

definition Math_round :: "real \<Rightarrow> int" where
  "Math_round x = \<lfloor>x + 1 / 2\<rfloor>"

definition percentage :: "real \<Rightarrow> real \<Rightarrow> percent" where
  "percentage a b = (if b = 0 then NaN_or_Infinity else Percent (Math_round ((a / b) * 100)))"

datatype insightText =
    SpentMoreThanBudget real percent
  | UnderBudgetBy real percent
  | OverBudgetIn string real percent
  | SavedIn real string percent
  | TopSpendingCategory string real percent
  | NothingSpentIn nat

record insight =
  i_text :: insightText
  i_type :: severity

definition totalOf :: "(comparison \<Rightarrow> real) \<Rightarrow> comparison list \<Rightarrow> real" where
  "totalOf field budgetComparison = foldl (\<lambda>sum item. sum + field item) 0 budgetComparison"

text \<open>Overall budget insight.\<close>

definition overallInsight :: "real \<Rightarrow> real \<Rightarrow> insight list" where
  "overallInsight totalBudgeted totalActual =
     (if totalBudgeted > 0
      then (let percentSpent = percentage totalActual totalBudgeted in
            if totalActual > totalBudgeted
            then [\<lparr> i_text = SpentMoreThanBudget (totalActual - totalBudgeted) percentSpent,
                    i_type = warning \<rparr>]
            else [\<lparr> i_text = UnderBudgetBy (totalBudgeted - totalActual) percentSpent,
                    i_type = success \<rparr>])
      else [])"

text \<open>
  Most over-budget category. The comparator
  \<open>(a, b) => (b.actual - b.budgeted) - (a.actual - a.budgeted)\<close> sorts by descending
  overage; the sort is stable and works on the copy made by \<open>filter\<close>.
\<close>

definition overBudgetItems :: "comparison list \<Rightarrow> comparison list" where
  "overBudgetItems budgetComparison =
     sort_key (\<lambda>item. - (actual item - budgeted item))
       (filter (\<lambda>item. budgeted item > 0 \<and> actual item > budgeted item) budgetComparison)"

definition overBudgetInsight :: "comparison list \<Rightarrow> insight list" where
  "overBudgetInsight budgetComparison =
     (case overBudgetItems budgetComparison of
        [] \<Rightarrow> []
      | worstCategory # _ \<Rightarrow>
          (let overage = actual worstCategory - budgeted worstCategory;
               percentOver = percentage overage (budgeted worstCategory)
           in [\<lparr> i_text = OverBudgetIn (category worstCategory) overage percentOver,
                  i_type = warning \<rparr>]))"

text \<open>Category with most savings.\<close>

definition underBudgetItems :: "comparison list \<Rightarrow> comparison list" where
  "underBudgetItems budgetComparison =
     sort_key (\<lambda>item. - (budgeted item - actual item))
       (filter (\<lambda>item. budgeted item > 0 \<and> actual item < budgeted item) budgetComparison)"

definition underBudgetInsight :: "comparison list \<Rightarrow> insight list" where
  "underBudgetInsight budgetComparison =
     (case underBudgetItems budgetComparison of
        [] \<Rightarrow> []
      | bestCategory # _ \<Rightarrow>
          (let savings = budgeted bestCategory - actual bestCategory;
               percentSaved = percentage savings (budgeted bestCategory)
           in [\<lparr> i_text = SavedIn savings (category bestCategory) percentSaved,
                  i_type = success \<rparr>]))"

text \<open>
  Top spending category. \<open>budgetComparison.sort((a, b) => b.actual - a.actual)\<close> sorts the
  argument array itself, in place: \<open>sortedByActual\<close> is what that array holds from then on.
\<close>

definition sortedByActual :: "comparison list \<Rightarrow> comparison list" where
  "sortedByActual budgetComparison = sort_key (\<lambda>item. - actual item) budgetComparison"

definition topSpendingInsight :: "comparison list \<Rightarrow> real \<Rightarrow> insight list" where
  "topSpendingInsight sortedComparison totalActual =
     (case sortedComparison of
        [] \<Rightarrow> []
      | topSpendingCategory # _ \<Rightarrow>
          if actual topSpendingCategory > 0
          then (let percentOfTotal = percentage (actual topSpendingCategory) totalActual
                in [\<lparr> i_text = TopSpendingCategory (category topSpendingCategory)
                                (actual topSpendingCategory) percentOfTotal,
                       i_type = info \<rparr>])
          else [])"

text \<open>Categories with no spending.\<close>

definition zeroSpendingInsight :: "comparison list \<Rightarrow> insight list" where
  "zeroSpendingInsight budgetComparison =
     (let zeroSpendingWithBudget =
            filter (\<lambda>item. budgeted item > 0 \<and> actual item = 0) budgetComparison
      in if length zeroSpendingWithBudget > 0
         then [\<lparr> i_text = NothingSpentIn (length zeroSpendingWithBudget), i_type = info \<rparr>]
         else [])"

text \<open>
  The result is the pair of the returned insights and the content of the array
  \<open>budgetComparison\<close> when the function returns.
\<close>

definition generateInsights :: "comparison list \<Rightarrow> stats \<Rightarrow> insight list \<times> comparison list" where
  "generateInsights budgetComparison st =
     (if budgetComparison = [] then ([], budgetComparison)
      else (let totalBudgeted = totalOf budgeted budgetComparison;
                totalActual = totalOf actual budgetComparison;
                insights1 = overallInsight totalBudgeted totalActual;
                insights2 = insights1 @ overBudgetInsight budgetComparison;
                insights3 = insights2 @ underBudgetInsight budgetComparison;
                budgetComparison' = sortedByActual budgetComparison;
                insights4 = insights3 @ topSpendingInsight budgetComparison' totalActual;
                insights5 = insights4 @ zeroSpendingInsight budgetComparison'
            in (insights5, budgetComparison')))"

text \<open>The percentage an insight text shows, if it shows one.\<close>

fun shownPercent :: "insightText \<Rightarrow> percent option" where
  "shownPercent (SpentMoreThanBudget a p) = Some p"
| "shownPercent (UnderBudgetBy a p) = Some p"
| "shownPercent (OverBudgetIn c a p) = Some p"
| "shownPercent (SavedIn a c p) = Some p"
| "shownPercent (TopSpendingCategory c a p) = Some p"
| "shownPercent (NothingSpentIn n) = None"

section \<open>Vocabulary of the specification\<close>



section \<open>Sample data\<close>

text \<open>Concrete transactions, budgets and calls on which the functions are run below.\<close>

definition txMilk :: transaction where
  "txMilk = \<lparr> t_id = ''txn_1'', t_amount = - 50, t_date = Some ''2025-01-05'',
              t_description = ''milk and bread'', t_category = Some ''Groceries'',
              t_createdAt = Some ''2025-01-05T09:00:00.000Z'',
              t_updatedAt = Some ''2025-01-05T09:00:00.000Z'' \<rparr>"

definition txSalary :: transaction where
  "txSalary = \<lparr> t_id = ''txn_2'', t_amount = 1200, t_date = Some ''2025-01-10'',
                t_description = ''salary'', t_category = None,
                t_createdAt = Some ''2025-01-10T09:00:00.000Z'',
                t_updatedAt = Some ''2025-01-10T09:00:00.000Z'' \<rparr>"

definition noPatch :: patch where
  "noPatch = \<lparr> p_id = None, p_amount = None, p_date = None, p_description = None,
               p_category = None, p_createdAt = None, p_updatedAt = None \<rparr>"

definition amountPatch :: patch where
  "amountPatch = noPatch\<lparr>p_amount := Some (- 45)\<rparr>"

definition idPatch :: patch where
  "idPatch = noPatch\<lparr>p_id := Some ''txn_7''\<rparr>"

definition bRent :: budget where
  "bRent = \<lparr> b_id = ''bgt_1736035200000_k3j5h7d'', b_month = ''2025-01'',
             b_category = ''Rent'', b_amount = 900,
             b_createdAt = Some ''2025-01-05T00:00:00.000Z'',
             b_updatedAt = Some ''2025-01-05T00:00:00.000Z'' \<rparr>"

definition bFoodClash :: budget where
  "bFoodClash = \<lparr> b_id = ''bgt_1736035200000_k3j5h7d'', b_month = ''2025-01'',
                  b_category = ''Food'', b_amount = 300,
                  b_createdAt = Some ''2025-01-05T00:00:00.000Z'',
                  b_updatedAt = Some ''2025-01-05T00:00:00.000Z'' \<rparr>"

definition rentDraft :: budgetDraft where
  "rentDraft = \<lparr> d_month = ''2025-01'', d_category = ''Rent'', d_amount = 950 \<rparr>"

definition foodDraft :: budgetDraft where
  "foodDraft = \<lparr> d_month = ''2025-01'', d_category = ''Food'', d_amount = 300 \<rparr>"

definition rowFood :: comparison where
  "rowFood = \<lparr> category = ''Food'', budgeted = 0, actual = 10, difference = - 10 \<rparr>"

definition rowRent :: comparison where
  "rowRent = \<lparr> category = ''Rent'', budgeted = 0, actual = 20, difference = - 20 \<rparr>"

definition rowGroceries :: comparison where
  "rowGroceries = \<lparr> category = ''Groceries'', budgeted = 100, actual = 120, difference = - 20 \<rparr>"

definition rowTransport :: comparison where
  "rowTransport = \<lparr> category = ''Transport'', budgeted = 60, actual = 65, difference = - 5 \<rparr>"

definition rowHealth :: comparison where
  "rowHealth = \<lparr> category = ''Health'', budgeted = 40, actual = 0, difference = 40 \<rparr>"

definition sampleStats :: stats where
  "sampleStats = \<lparr> totalTransactions = 2, income = 1200, expenses = 50, balance = 1150 \<rparr>"










definition bFoodFirst :: budget where
  "bFoodFirst = \<lparr> b_id = ''bgt_1736035200500_m4n5b6v'', b_month = ''2025-01'',
                  b_category = ''Food'', b_amount = 300,
                  b_createdAt = Some ''2025-01-05T00:00:00.500Z'',
                  b_updatedAt = Some ''2025-01-05T00:00:00.500Z'' \<rparr>"

definition bFoodSecond :: budget where
  "bFoodSecond = \<lparr> b_id = ''bgt_1736035200501_q7w8e9r'', b_month = ''2025-01'',
                   b_category = ''Food'', b_amount = 300,
                   b_createdAt = Some ''2025-01-05T00:00:00.501Z'',
                   b_updatedAt = Some ''2025-01-05T00:00:00.501Z'' \<rparr>"

section \<open>Properties of the helpers\<close>

lemma findIndex_None_iff: "findIndex P xs = None \<longleftrightarrow> (\<forall>x \<in> set xs. \<not> P x)"
  by (induction xs) (auto split: option.splits)

lemma findIndex_Some_less: "findIndex P xs = Some i \<Longrightarrow> i < length xs \<and> P (xs ! i)"
  by (induction xs arbitrary: i) (auto split: if_splits option.splits)

lemma foldl_plus_sum_list: "foldl (\<lambda>s x. s + f x) a xs = a + sum_list (map f xs)"
  for a :: real
  by (induction xs arbitrary: a) auto

lemma find_None_conv: "find P xs = None \<longleftrightarrow> (\<forall>x \<in> set xs. \<not> P x)"
  by (induction xs) auto

lemma find_map_merge:
  assumes "\<And>x. P x \<Longrightarrow> P (f x)"
  shows "find P (map (\<lambda>x. if P x then f x else x) xs) = map_option f (find P xs)"
  using assms by (induction xs) auto

lemma findIndex_append_new:
  assumes "findIndex P bs = None" "P x"
  shows "findIndex P (bs @ [x]) = Some (length bs)"
  using assms by (induction bs) (auto split: if_splits option.splits)

lemma distinct_filter_le1:
  "distinct (map f xs) \<Longrightarrow> length (filter (\<lambda>x. f x = v) xs) \<le> 1"
proof (induction xs)
  case Nil
  then show ?case by simp
next
  case (Cons x xs)
  show ?case
  proof (cases "f x = v")
    case True
    from Cons.prems have "f x \<notin> f ` set xs" by simp
    with True have "\<forall>y \<in> set xs. f y \<noteq> v" by (metis image_eqI)
    then have "filter (\<lambda>x. f x = v) xs = []" by (simp add: filter_empty_conv)
    with True show ?thesis by simp
  next
    case False
    with Cons show ?thesis by simp
  qed
qed

lemma distinct_filter_eq1:
  assumes "distinct (map f xs)" "x \<in> set xs" "f x = v"
  shows "length (filter (\<lambda>x. f x = v) xs) = 1"
proof -
  have "x \<in> set (filter (\<lambda>x. f x = v) xs)" using assms by simp
  then have "length (filter (\<lambda>x. f x = v) xs) \<noteq> 0" by (metis length_0_conv empty_iff empty_set)
  with distinct_filter_le1[OF assms(1), of v] show ?thesis by linarith
qed

section \<open>Statistics\<close>

text \<open>
  C6. For every transaction list, \<open>getStats\<close> returns as income the sum of the positive
  amounts, as expenses the sum of the absolute values of the negative amounts, and as
  balance income minus expenses; income and expenses are never negative.
\<close>

theorem getStats_correct:
  "income (getStats ts) = sum_list (filter (\<lambda>a. a > 0) (map t_amount ts))
   \<and> expenses (getStats ts) = sum_list (map abs (filter (\<lambda>a. a < 0) (map t_amount ts)))
   \<and> balance (getStats ts) = income (getStats ts) - expenses (getStats ts)
   \<and> 0 \<le> income (getStats ts) \<and> 0 \<le> expenses (getStats ts)"
proof -
  have inc: "income (getStats ts) = sum_list (filter (\<lambda>a. a > 0) (map t_amount ts))"
    by (simp add: getStats_def Let_def foldl_plus_sum_list filter_map comp_def)
  have exp: "expenses (getStats ts) = sum_list (map abs (filter (\<lambda>a. a < 0) (map t_amount ts)))"
    by (simp add: getStats_def Let_def foldl_plus_sum_list filter_map comp_def)
  have bal: "balance (getStats ts) = income (getStats ts) - expenses (getStats ts)"
    by (simp add: getStats_def Let_def)
  have "0 \<le> sum_list (filter (\<lambda>a. a > 0) (map t_amount ts))"
    by (rule sum_list_nonneg) auto
  moreover have "0 \<le> sum_list (map abs (filter (\<lambda>a. a < 0) (map t_amount ts)))"
    by (rule sum_list_nonneg) auto
  ultimately show ?thesis
    using inc exp bal by simp
qed

section \<open>Deleting\<close>

text \<open>
  C9. If no stored element has the id, \<open>deleteTransaction\<close> and \<open>deleteBudget\<close> resolve
  \<open>false\<close> and leave the list as it is; if one has, they resolve \<open>true\<close> and the new list
  is the old one without the elements of that id.
\<close>

theorem delete_correct:
  "((\<forall>t \<in> set ts. t_id t \<noteq> i) \<longrightarrow> deleteTransaction ts i = (ts, False))
   \<and> ((\<exists>t \<in> set ts. t_id t = i) \<longrightarrow>
        deleteTransaction ts i = (filter (\<lambda>t. t_id t \<noteq> i) ts, True))
   \<and> ((\<forall>b \<in> set bs. b_id b \<noteq> i) \<longrightarrow> deleteBudget bs i = (bs, False))
   \<and> ((\<exists>b \<in> set bs. b_id b = i) \<longrightarrow>
        deleteBudget bs i = (filter (\<lambda>b. b_id b \<noteq> i) bs, True))"
proof -
  have t: "findIndex (\<lambda>t. t_id t = i) ts = None \<longleftrightarrow> (\<forall>t \<in> set ts. t_id t \<noteq> i)"
    by (simp add: findIndex_None_iff)
  have b: "findIndex (\<lambda>b. b_id b = i) bs = None \<longleftrightarrow> (\<forall>b \<in> set bs. b_id b \<noteq> i)"
    by (simp add: findIndex_None_iff)
  show ?thesis
    using t b by (auto simp: deleteTransaction_def deleteBudget_def split: option.splits)
qed

theorem delete_correct_witness:
  "deleteTransaction [txMilk, txSalary] ''txn_9'' = ([txMilk, txSalary], False)
   \<and> deleteTransaction [txMilk, txSalary] ''txn_1'' = ([txSalary], True)
   \<and> deleteBudget [bRent] ''txn_9'' = ([bRent], False)
   \<and> deleteBudget [bRent] ''bgt_1736035200000_k3j5h7d'' = ([], True)"
  using delete_correct [of "[txMilk, txSalary]" "''txn_9''" "[bRent]"]
    delete_correct [of "[txMilk, txSalary]" "''txn_1''" "[bRent]"]
    delete_correct [of "[txMilk, txSalary]" "''bgt_1736035200000_k3j5h7d''" "[bRent]"]
  by (simp add: txMilk_def txSalary_def bRent_def)

section \<open>Updating a transaction\<close>

lemma mergeTransaction_id:
  "t_id (mergeTransaction t p ts) = (case p_id p of None \<Rightarrow> t_id t | Some v \<Rightarrow> v)"
  by (simp add: mergeTransaction_def)

text \<open>
  C8 as stated fails: a patch that carries another id renames the transaction, the lookup
  by the old id then finds nothing, and the promise resolves with \<open>null\<close>.
\<close>

theorem updateTransaction_id_patch_counterexample:
  "t_id txMilk = ''txn_1''
   \<and> snd (updateTransaction [txMilk] ''txn_1'' idPatch ''2025-01-06T08:00:00.000Z'') = Inr None
   \<and> Inr None \<noteq>
       (Inr (Some (mergeTransaction txMilk idPatch ''2025-01-06T08:00:00.000Z''))
          :: store_error + transaction option)"
  by (simp add: updateTransaction_def txMilk_def idPatch_def noPatch_def mergeTransaction_def)

text \<open>
  C8 (amended). If no stored transaction has the id, \<open>updateTransaction\<close> rejects with the
  not-found error and leaves the list unchanged. If one has, every transaction of that id
  is replaced by its merge with the patch, with updatedAt set to the current time, and
  every transaction of another id is unchanged; and if the patch does not assign a
  different id, the promise resolves with the merge of the first transaction of that id.
\<close>

theorem updateTransaction_correct:
  "((\<forall>t \<in> set ts. t_id t \<noteq> i) \<longrightarrow> updateTransaction ts i p now = (ts, Inl (NotFound i)))
   \<and> ((\<exists>t \<in> set ts. t_id t = i) \<longrightarrow>
        fst (updateTransaction ts i p now) =
          map (\<lambda>t. if t_id t = i then mergeTransaction t p now else t) ts
        \<and> (\<forall>k < length ts. t_id (ts ! k) \<noteq> i \<longrightarrow> fst (updateTransaction ts i p now) ! k = ts ! k)
        \<and> length (fst (updateTransaction ts i p now)) = length ts
        \<and> ((p_id p = None \<or> p_id p = Some i) \<longrightarrow>
             (\<exists>t. find (\<lambda>t. t_id t = i) ts = Some t
                \<and> snd (updateTransaction ts i p now) = Inr (Some (mergeTransaction t p now))
                \<and> t_updatedAt (mergeTransaction t p now) = Some now)))"
proof (intro conjI impI)
  assume "\<forall>t \<in> set ts. t_id t \<noteq> i"
  then have "find (\<lambda>t. t_id t = i) ts = None" by (simp add: find_None_conv)
  then show "updateTransaction ts i p now = (ts, Inl (NotFound i))"
    by (simp add: updateTransaction_def)
next
  assume ex: "\<exists>t \<in> set ts. t_id t = i"
  then obtain e where e: "find (\<lambda>t. t_id t = i) ts = Some e"
    using find_None_conv[of "\<lambda>t. t_id t = i" ts] by fastforce
  show st: "fst (updateTransaction ts i p now) =
          map (\<lambda>t. if t_id t = i then mergeTransaction t p now else t) ts"
    using e by (simp add: updateTransaction_def Let_def)
  show "\<forall>k < length ts. t_id (ts ! k) \<noteq> i \<longrightarrow> fst (updateTransaction ts i p now) ! k = ts ! k"
    by (simp add: st)
  show "length (fst (updateTransaction ts i p now)) = length ts"
    by (simp add: st)
  assume pid: "p_id p = None \<or> p_id p = Some i"
  have keep: "\<And>x. t_id x = i \<Longrightarrow> t_id (mergeTransaction x p now) = i"
    using pid by (auto simp: mergeTransaction_id)
  have "find (\<lambda>t. t_id t = i) (map (\<lambda>t. if t_id t = i then mergeTransaction t p now else t) ts)
        = map_option (\<lambda>t. mergeTransaction t p now) (find (\<lambda>t. t_id t = i) ts)"
    by (rule find_map_merge[where P = "\<lambda>t. t_id t = i" and f = "\<lambda>t. mergeTransaction t p now"])
      (rule keep)
  then have "snd (updateTransaction ts i p now) = Inr (Some (mergeTransaction e p now))"
    using e by (simp add: updateTransaction_def Let_def)
  moreover have "t_updatedAt (mergeTransaction e p now) = Some now"
    by (simp add: mergeTransaction_def)
  ultimately show "\<exists>t. find (\<lambda>t. t_id t = i) ts = Some t
                \<and> snd (updateTransaction ts i p now) = Inr (Some (mergeTransaction t p now))
                \<and> t_updatedAt (mergeTransaction t p now) = Some now"
    using e by blast
qed

theorem updateTransaction_correct_witness:
  "updateTransaction [txMilk, txSalary] ''txn_9'' amountPatch ''2025-01-06T08:00:00.000Z''
     = ([txMilk, txSalary], Inl (NotFound ''txn_9''))
   \<and> updateTransaction [txMilk, txSalary] ''txn_1'' amountPatch ''2025-01-06T08:00:00.000Z''
     = ([txMilk\<lparr>t_amount := - 45, t_updatedAt := Some ''2025-01-06T08:00:00.000Z''\<rparr>, txSalary],
        Inr (Some (txMilk\<lparr>t_amount := - 45, t_updatedAt := Some ''2025-01-06T08:00:00.000Z''\<rparr>)))"
  using updateTransaction_correct
          [of "[txMilk, txSalary]" "''txn_9''" amountPatch "''2025-01-06T08:00:00.000Z''"]
    updateTransaction_correct
          [of "[txMilk, txSalary]" "''txn_1''" amountPatch "''2025-01-06T08:00:00.000Z''"]
  by (simp add: txMilk_def txSalary_def amountPatch_def noPatch_def mergeTransaction_def
        prod_eq_iff)

section \<open>Upserting a budget\<close>

lemma pairs_update:
  "k < length bs \<Longrightarrow>
   map (\<lambda>b. (b_month b, b_category b)) (bs[k := (bs ! k)\<lparr>b_amount := a, b_updatedAt := u\<rparr>])
     = map (\<lambda>b. (b_month b, b_category b)) bs"
  by (simp add: map_update list_update_same_conv)

lemma ids_update:
  "k < length bs \<Longrightarrow>
   map b_id (bs[k := (bs ! k)\<lparr>b_amount := a, b_updatedAt := u\<rparr>]) = map b_id bs"
  by (simp add: map_update list_update_same_conv)

lemma findIndex_update:
  assumes k: "findIndex (\<lambda>b. b_category b = c \<and> b_month b = m) bs = Some k"
  shows "findIndex (\<lambda>b. b_category b = c \<and> b_month b = m)
           (bs[k := (bs ! k)\<lparr>b_amount := a, b_updatedAt := u\<rparr>]) = Some k"
  using k
proof (induction bs arbitrary: k)
  case Nil
  then show ?case by simp
next
  case (Cons x xs)
  then show ?case by (auto split: if_splits option.splits)
qed

text \<open>
  The id of an appended budget is built from the clock and a random number and is not
  compared with the stored ids: at the same millisecond and the same random number as for
  a stored budget, the appended budget carries the stored id.
\<close>

lemma addOrUpdateBudget_id_collision:
  "onePerPair [bRent]
   \<and> fst (addOrUpdateBudget [bRent] [bRent] foodDraft ''2025-01-05T00:00:00.000Z''
           1736035200000 ''0.k3j5h7d9x2'') = Some [bRent, bFoodClash]
   \<and> b_id bFoodClash = b_id bRent"
  by (simp add: onePerPair_def addOrUpdateBudget_def bRent_def bFoodClash_def foodDraft_def
        budgetId_def substring_def showNat.simps Let_def)

lemma upsert_existing:
  assumes k: "findIndex (\<lambda>b. b_category b = d_category d \<and> b_month b = d_month d) bs = Some k"
  shows "addOrUpdateBudget bs bs d ts now rnd =
           (Some (bs[k := (bs ! k)\<lparr>b_amount := d_amount d, b_updatedAt := Some ts\<rparr>]),
            (bs ! k)\<lparr>b_amount := d_amount d, b_updatedAt := Some ts\<rparr>)"
  using k findIndex_Some_less[OF k] by (simp add: addOrUpdateBudget_def)

lemma upsert_new:
  assumes k: "findIndex (\<lambda>b. b_category b = d_category d \<and> b_month b = d_month d) bs = None"
  shows "addOrUpdateBudget bs bs d ts now rnd =
           (Some (bs @ [\<lparr> b_id = budgetId now rnd, b_month = d_month d,
                   b_category = d_category d, b_amount = d_amount d,
                   b_createdAt = Some ts, b_updatedAt = Some ts \<rparr>]),
            \<lparr> b_id = budgetId now rnd, b_month = d_month d,
                   b_category = d_category d, b_amount = d_amount d,
                   b_createdAt = Some ts, b_updatedAt = Some ts \<rparr>)"
  using k by (simp add: addOrUpdateBudget_def Let_def)

lemma upsert_step:
  assumes inv: "onePerPair bs"
  shows "\<exists>bs' k. fst (addOrUpdateBudget bs bs d ts now rnd) = Some bs' \<and> onePerPair bs'
           \<and> findIndex (\<lambda>b. b_category b = d_category d \<and> b_month b = d_month d) bs' = Some k
           \<and> snd (addOrUpdateBudget bs bs d ts now rnd) = bs' ! k
           \<and> b_amount (bs' ! k) = d_amount d"
proof (cases "findIndex (\<lambda>b. b_category b = d_category d \<and> b_month b = d_month d) bs")
  case None
  let ?n = "\<lparr> b_id = budgetId now rnd, b_month = d_month d,
                   b_category = d_category d, b_amount = d_amount d,
                   b_createdAt = Some ts, b_updatedAt = Some ts \<rparr>"
  have "\<forall>b \<in> set bs. (b_month b, b_category b) \<noteq> (d_month d, d_category d)"
    using None by (auto simp: findIndex_None_iff)
  then have "onePerPair (bs @ [?n])"
    using inv by (auto simp: onePerPair_def)
  moreover have "findIndex (\<lambda>b. b_category b = d_category d \<and> b_month b = d_month d) (bs @ [?n]) = Some (length bs)"
    by (rule findIndex_append_new[OF None]) simp
  ultimately show ?thesis
    by (simp add: upsert_new[OF None])
next
  case (Some k)
  have kl: "k < length bs" using findIndex_Some_less[OF Some] by simp
  have "onePerPair (bs[k := (bs ! k)\<lparr>b_amount := d_amount d, b_updatedAt := Some ts\<rparr>])"
    using inv kl by (simp add: onePerPair_def pairs_update)
  then show ?thesis
    using kl by (simp add: upsert_existing[OF Some] findIndex_update[OF Some])
qed

text \<open>
  Through a callback created for the current list, so that the list it captured is the
  list the updater receives, the upsert keeps the invariant. If a budget for the pair
  existed, only its amount and updatedAt are replaced: id and createdAt are kept and the
  length is unchanged. Otherwise exactly one budget is appended, with the draft's month,
  category and amount and the generated id. Repeating the call with the same draft on the
  resulting list keeps the length and every id and leaves exactly one budget for the pair.
\<close>

lemma addOrUpdateBudget_upsert:
  assumes inv: "onePerPair budgets"
  shows "\<exists>budgets'. fst (addOrUpdateBudget budgets budgets d ts now rnd) = Some budgets'
         \<and> onePerPair budgets'
         \<and> length (filter (\<lambda>b. b_category b = d_category d \<and> b_month b = d_month d) budgets') = 1
         \<and> (\<forall>k. findIndex (\<lambda>b. b_category b = d_category d \<and> b_month b = d_month d) budgets = Some k \<longrightarrow>
               budgets' = budgets[k := (budgets ! k)\<lparr>b_amount := d_amount d, b_updatedAt := Some ts\<rparr>]
               \<and> length budgets' = length budgets
               \<and> b_id (budgets' ! k) = b_id (budgets ! k)
               \<and> b_createdAt (budgets' ! k) = b_createdAt (budgets ! k)
               \<and> snd (addOrUpdateBudget budgets budgets d ts now rnd) = budgets' ! k)
         \<and> (findIndex (\<lambda>b. b_category b = d_category d \<and> b_month b = d_month d) budgets = None \<longrightarrow>
               budgets' = budgets @ [snd (addOrUpdateBudget budgets budgets d ts now rnd)]
               \<and> snd (addOrUpdateBudget budgets budgets d ts now rnd) =
                   \<lparr> b_id = budgetId now rnd, b_month = d_month d, b_category = d_category d,
                     b_amount = d_amount d, b_createdAt = Some ts, b_updatedAt = Some ts \<rparr>
               \<and> (distinct (map b_id budgets) \<and> budgetId now rnd \<notin> set (map b_id budgets)
                    \<longrightarrow> distinct (map b_id budgets')))
         \<and> (\<exists>budgets''. fst (addOrUpdateBudget budgets' budgets' d ts2 now2 rnd2) = Some budgets''
               \<and> onePerPair budgets''
               \<and> length budgets'' = length budgets'
               \<and> map b_id budgets'' = map b_id budgets'
               \<and> length (filter (\<lambda>b. b_category b = d_category d \<and> b_month b = d_month d) budgets'') = 1
               \<and> b_id (snd (addOrUpdateBudget budgets' budgets' d ts2 now2 rnd2))
                    = b_id (snd (addOrUpdateBudget budgets budgets d ts now rnd)))"
proof -
  let ?P = "\<lambda>b. b_category b = d_category d \<and> b_month b = d_month d"
  let ?U = "addOrUpdateBudget budgets budgets d ts now rnd"
  obtain bs' k where s1: "fst ?U = Some bs'" "onePerPair bs'" "findIndex ?P bs' = Some k"
      "snd ?U = bs' ! k"
    using upsert_step[OF inv, of d ts now rnd] by blast
  have kl: "k < length bs'" "?P (bs' ! k)" using findIndex_Some_less[OF s1(3)] by auto
  have one: "\<And>xs j. onePerPair xs \<Longrightarrow> findIndex ?P xs = Some j \<Longrightarrow> length (filter ?P xs) = 1"
  proof -
    fix xs j assume a: "onePerPair xs" "findIndex ?P xs = Some j"
    have j: "j < length xs" "?P (xs ! j)" using findIndex_Some_less[OF a(2)] by auto
    have "length (filter (\<lambda>b. (b_month b, b_category b) = (d_month d, d_category d)) xs) = 1"
      by (rule distinct_filter_eq1[where x = "xs ! j"]) (use a j in \<open>auto simp: onePerPair_def\<close>)
    moreover have "filter (\<lambda>b. (b_month b, b_category b) = (d_month d, d_category d)) xs = filter ?P xs"
      by (rule filter_cong) auto
    ultimately show "length (filter ?P xs) = 1" by simp
  qed
  have c1: "length (filter ?P bs') = 1" by (rule one[OF s1(2) s1(3)])
  have c2: "\<forall>k. findIndex ?P budgets = Some k \<longrightarrow>
               bs' = budgets[k := (budgets ! k)\<lparr>b_amount := d_amount d, b_updatedAt := Some ts\<rparr>]
               \<and> length bs' = length budgets
               \<and> b_id (bs' ! k) = b_id (budgets ! k)
               \<and> b_createdAt (bs' ! k) = b_createdAt (budgets ! k)
               \<and> snd ?U = bs' ! k"
  proof (intro allI impI)
    fix j assume j: "findIndex ?P budgets = Some j"
    have jl: "j < length budgets" using findIndex_Some_less[OF j] by simp
    have "bs' = budgets[j := (budgets ! j)\<lparr>b_amount := d_amount d, b_updatedAt := Some ts\<rparr>]"
      using s1(1) by (simp add: upsert_existing[OF j])
    then show "bs' = budgets[j := (budgets ! j)\<lparr>b_amount := d_amount d, b_updatedAt := Some ts\<rparr>]
               \<and> length bs' = length budgets
               \<and> b_id (bs' ! j) = b_id (budgets ! j)
               \<and> b_createdAt (bs' ! j) = b_createdAt (budgets ! j)
               \<and> snd ?U = bs' ! j"
      using jl by (simp add: upsert_existing[OF j])
  qed
  have c3: "findIndex ?P budgets = None \<longrightarrow>
               bs' = budgets @ [snd ?U]
               \<and> snd ?U = \<lparr> b_id = budgetId now rnd, b_month = d_month d, b_category = d_category d,
                     b_amount = d_amount d, b_createdAt = Some ts, b_updatedAt = Some ts \<rparr>
               \<and> (distinct (map b_id budgets) \<and> budgetId now rnd \<notin> set (map b_id budgets)
                    \<longrightarrow> distinct (map b_id bs'))"
  proof
    assume n: "findIndex ?P budgets = None"
    show "bs' = budgets @ [snd ?U]
               \<and> snd ?U = \<lparr> b_id = budgetId now rnd, b_month = d_month d, b_category = d_category d,
                     b_amount = d_amount d, b_createdAt = Some ts, b_updatedAt = Some ts \<rparr>
               \<and> (distinct (map b_id budgets) \<and> budgetId now rnd \<notin> set (map b_id budgets)
                    \<longrightarrow> distinct (map b_id bs'))"
      using s1(1) by (auto simp: upsert_new[OF n])
  qed
  let ?U2 = "addOrUpdateBudget bs' bs' d ts2 now2 rnd2"
  let ?bs2 = "bs'[k := (bs' ! k)\<lparr>b_amount := d_amount d, b_updatedAt := Some ts2\<rparr>]"
  have u2: "?U2 = (Some ?bs2, (bs' ! k)\<lparr>b_amount := d_amount d, b_updatedAt := Some ts2\<rparr>)"
    by (rule upsert_existing[OF s1(3)])
  have inv2: "onePerPair ?bs2" using s1(2) kl(1) by (simp add: onePerPair_def pairs_update)
  have f2: "findIndex ?P ?bs2 = Some k" by (rule findIndex_update[OF s1(3)])
  have c4: "fst ?U2 = Some ?bs2 \<and> onePerPair ?bs2 \<and> length ?bs2 = length bs'
            \<and> map b_id ?bs2 = map b_id bs' \<and> length (filter ?P ?bs2) = 1
            \<and> b_id (snd ?U2) = b_id (snd ?U)"
    using u2 inv2 one[OF inv2 f2] kl(1) s1(4) by (simp add: ids_update)
  have c5: "\<exists>budgets''. fst ?U2 = Some budgets'' \<and> onePerPair budgets''
               \<and> length budgets'' = length bs'
               \<and> map b_id budgets'' = map b_id bs'
               \<and> length (filter ?P budgets'') = 1
               \<and> b_id (snd ?U2) = b_id (snd ?U)"
    by (rule exI[where x = "?bs2"]) (rule c4)
  show ?thesis
    apply (rule exI[of _ bs'])
    apply (rule conjI, rule s1(1))
    apply (rule conjI, rule s1(2))
    apply (rule conjI, rule c1)
    apply (rule conjI, rule c2)
    apply (rule conjI, rule c3)
    apply (rule c5)
    done
qed

lemma addOrUpdateBudget_upsert_example:
  "onePerPair [bRent]
   \<and> (\<exists>budgets'. fst (addOrUpdateBudget [bRent] [bRent] rentDraft ''2025-01-06T00:00:00.000Z''
                      1736121600000 ''0.9zq1w8e3r5'') = Some budgets'
         \<and> onePerPair budgets' \<and> length budgets' = 1
         \<and> b_id (budgets' ! 0) = b_id bRent \<and> b_amount (budgets' ! 0) = 950)"
proof -
  have h: "onePerPair [bRent]"
    by (simp add: onePerPair_def)
  have f: "findIndex (\<lambda>b. b_category b = d_category rentDraft \<and> b_month b = d_month rentDraft)
             [bRent] = Some 0"
    by (simp add: bRent_def rentDraft_def)
  obtain bs' where bs': "fst (addOrUpdateBudget [bRent] [bRent] rentDraft ''2025-01-06T00:00:00.000Z''
                      1736121600000 ''0.9zq1w8e3r5'') = Some bs'" "onePerPair bs'"
      "\<forall>k. findIndex (\<lambda>b. b_category b = d_category rentDraft \<and> b_month b = d_month rentDraft)
             [bRent] = Some k \<longrightarrow>
               bs' = [bRent][k := ([bRent] ! k)\<lparr>b_amount := d_amount rentDraft, b_updatedAt := Some ''2025-01-06T00:00:00.000Z''\<rparr>]"
    using addOrUpdateBudget_upsert [OF h, of rentDraft "''2025-01-06T00:00:00.000Z''"
        1736121600000 "''0.9zq1w8e3r5''" "''2025-01-06T00:00:00.000Z''" 1736121600000 "''0.9zq1w8e3r5''"]
    by blast
  from bs'(3) f have "bs' = [bRent\<lparr>b_amount := 950, b_updatedAt := Some ''2025-01-06T00:00:00.000Z''\<rparr>]"
    by (simp add: rentDraft_def)
  with bs'(1,2) h show ?thesis by simp
qed

text \<open>
  C5 says that \<open>addOrUpdateBudget\<close> keeps at most one budget per (month, category) pair
  and that repeating the identical call leaves exactly one budget for the pair. The code
  looks the pair up in \<open>budgets\<close>, the list captured when the callback was created, and not
  in \<open>prev\<close>, the list the updater receives and rewrites (\<open>deleteBudget\<close> and
  \<open>updateTransaction\<close> test \<open>prev\<close>). Two identical calls through one callback, created
  for the empty store, therefore both take the branch that appends: the second one
  receives the list with the first budget and adds another budget for the same pair.
\<close>

theorem addOrUpdateBudget_stale_callback:
  "onePerPair []
   \<and> addOrUpdateBudget [] [] foodDraft ''2025-01-05T00:00:00.500Z'' 1736035200500
         ''0.m4n5b6v7c8'' = (Some [bFoodFirst], bFoodFirst)
   \<and> onePerPair [bFoodFirst]
   \<and> addOrUpdateBudget [] [bFoodFirst] foodDraft ''2025-01-05T00:00:00.501Z'' 1736035200501
         ''0.q7w8e9r0t1'' = (Some [bFoodFirst, bFoodSecond], bFoodSecond)
   \<and> \<not> onePerPair [bFoodFirst, bFoodSecond]
   \<and> b_id bFoodSecond \<noteq> b_id bFoodFirst"
  by (simp add: onePerPair_def addOrUpdateBudget_def bFoodFirst_def bFoodSecond_def
        foodDraft_def budgetId_def substring_def showNat.simps Let_def)

section \<open>Insights\<close>

lemma totalOf_sum_list: "totalOf f xs = sum_list (map f xs)"
  by (simp add: totalOf_def foldl_plus_sum_list)

lemma sort_key_head:
  assumes "sort_key k xs = y # ys"
  shows "y \<in> set xs \<and> (\<forall>x \<in> set xs. k y \<le> k x)"
proof -
  have s: "set (y # ys) = set xs" using assms by (metis set_sort)
  have "sorted (map k (y # ys))" using assms by (metis sorted_sort_key)
  then have "\<forall>z \<in> set ys. k y \<le> k z" by simp
  with s show ?thesis by auto
qed

lemma sort_key_Nil_iff: "sort_key k xs = [] \<longleftrightarrow> xs = []"
  by (metis length_sort length_0_conv)

lemma fst_generateInsights:
  "cmp \<noteq> [] \<Longrightarrow>
   fst (generateInsights cmp st) =
     overallInsight (totalOf budgeted cmp) (totalOf actual cmp) @ overBudgetInsight cmp
       @ underBudgetInsight cmp @ topSpendingInsight (sortedByActual cmp) (totalOf actual cmp)
       @ zeroSpendingInsight (sortedByActual cmp)"
  by (simp add: generateInsights_def Let_def)

lemma overallInsight_cases:
  "overallInsight tb ta =
     (if tb > 0
      then [if ta > tb
            then \<lparr> i_text = SpentMoreThanBudget (ta - tb) (percentage ta tb), i_type = warning \<rparr>
            else \<lparr> i_text = UnderBudgetBy (tb - ta) (percentage ta tb), i_type = success \<rparr>]
      else [])"
  by (simp add: overallInsight_def Let_def)

lemma overBudgetInsight_worst:
  assumes "\<exists>r \<in> set cmp. budgeted r > 0 \<and> actual r > budgeted r"
  shows "\<exists>w. w \<in> set cmp \<and> budgeted w > 0 \<and> actual w > budgeted w
           \<and> (\<forall>r \<in> set cmp. budgeted r > 0 \<and> actual r > budgeted r
                  \<longrightarrow> actual r - budgeted r \<le> actual w - budgeted w)
           \<and> overBudgetInsight cmp =
               [\<lparr> i_text = OverBudgetIn (category w) (actual w - budgeted w)
                             (percentage (actual w - budgeted w) (budgeted w)),
                  i_type = warning \<rparr>]"
proof -
  let ?f = "filter (\<lambda>item. budgeted item > 0 \<and> actual item > budgeted item) cmp"
  from assms have "?f \<noteq> []" by (simp add: filter_empty_conv)
  then have "overBudgetItems cmp \<noteq> []"
    by (simp add: overBudgetItems_def sort_key_Nil_iff)
  then obtain w ws where w: "overBudgetItems cmp = w # ws"
    by (cases "overBudgetItems cmp") auto
  then have h: "w \<in> set ?f \<and> (\<forall>x \<in> set ?f. - (actual w - budgeted w) \<le> - (actual x - budgeted x))"
    unfolding overBudgetItems_def by (rule sort_key_head)
  have "overBudgetInsight cmp =
               [\<lparr> i_text = OverBudgetIn (category w) (actual w - budgeted w)
                             (percentage (actual w - budgeted w) (budgeted w)),
                  i_type = warning \<rparr>]"
    using w by (simp add: overBudgetInsight_def Let_def)
  moreover have "w \<in> set cmp \<and> budgeted w > 0 \<and> actual w > budgeted w" using h by simp
  moreover have "\<forall>r \<in> set cmp. budgeted r > 0 \<and> actual r > budgeted r
                  \<longrightarrow> actual r - budgeted r \<le> actual w - budgeted w"
    using h by auto
  ultimately show ?thesis by blast
qed

text \<open>
  C3. For a non-empty comparison list: if the sum of \<open>budgeted\<close> over all rows is positive,
  the first insight is the overall one, a warning when the total actual exceeds the total
  budgeted and a success otherwise; and if some row has \<open>budgeted > 0\<close> and
  \<open>actual > budgeted\<close>, the next insight (the second if the overall one was emitted, the
  first otherwise) is a warning naming a row of largest overage \<open>actual - budgeted\<close> among
  those rows.
\<close>

theorem generateInsights_priority:
  assumes "cmp \<noteq> []"
  shows "(sum_list (map budgeted cmp) > 0 \<longrightarrow>
            fst (generateInsights cmp st) \<noteq> []
            \<and> hd (fst (generateInsights cmp st)) =
                (if sum_list (map actual cmp) > sum_list (map budgeted cmp)
                 then \<lparr> i_text = SpentMoreThanBudget
                                   (sum_list (map actual cmp) - sum_list (map budgeted cmp))
                                   (percentage (sum_list (map actual cmp)) (sum_list (map budgeted cmp))),
                        i_type = warning \<rparr>
                 else \<lparr> i_text = UnderBudgetBy
                                   (sum_list (map budgeted cmp) - sum_list (map actual cmp))
                                   (percentage (sum_list (map actual cmp)) (sum_list (map budgeted cmp))),
                        i_type = success \<rparr>))
         \<and> ((\<exists>r \<in> set cmp. budgeted r > 0 \<and> actual r > budgeted r) \<longrightarrow>
              (\<exists>w. w \<in> set cmp \<and> budgeted w > 0 \<and> actual w > budgeted w
                 \<and> (\<forall>r \<in> set cmp. budgeted r > 0 \<and> actual r > budgeted r
                        \<longrightarrow> actual r - budgeted r \<le> actual w - budgeted w)
                 \<and> (if sum_list (map budgeted cmp) > 0 then 1 else 0) < length (fst (generateInsights cmp st))
                 \<and> fst (generateInsights cmp st) ! (if sum_list (map budgeted cmp) > 0 then 1 else 0) =
                     \<lparr> i_text = OverBudgetIn (category w) (actual w - budgeted w)
                                  (percentage (actual w - budgeted w) (budgeted w)),
                       i_type = warning \<rparr>))"
proof (intro conjI impI)
  assume tb: "sum_list (map budgeted cmp) > 0"
  show "fst (generateInsights cmp st) \<noteq> []"
    using tb by (simp add: fst_generateInsights[OF assms] overallInsight_cases totalOf_sum_list)
  show "hd (fst (generateInsights cmp st)) =
                (if sum_list (map actual cmp) > sum_list (map budgeted cmp)
                 then \<lparr> i_text = SpentMoreThanBudget
                                   (sum_list (map actual cmp) - sum_list (map budgeted cmp))
                                   (percentage (sum_list (map actual cmp)) (sum_list (map budgeted cmp))),
                        i_type = warning \<rparr>
                 else \<lparr> i_text = UnderBudgetBy
                                   (sum_list (map budgeted cmp) - sum_list (map actual cmp))
                                   (percentage (sum_list (map actual cmp)) (sum_list (map budgeted cmp))),
                        i_type = success \<rparr>)"
    using tb by (simp add: fst_generateInsights[OF assms] overallInsight_cases totalOf_sum_list)
next
  assume "\<exists>r \<in> set cmp. budgeted r > 0 \<and> actual r > budgeted r"
  from overBudgetInsight_worst[OF this] obtain w where
    w: "w \<in> set cmp" "budgeted w > 0" "actual w > budgeted w"
       "\<forall>r \<in> set cmp. budgeted r > 0 \<and> actual r > budgeted r
                  \<longrightarrow> actual r - budgeted r \<le> actual w - budgeted w"
       "overBudgetInsight cmp =
               [\<lparr> i_text = OverBudgetIn (category w) (actual w - budgeted w)
                             (percentage (actual w - budgeted w) (budgeted w)),
                  i_type = warning \<rparr>]"
    by blast
  have len: "length (overallInsight (totalOf budgeted cmp) (totalOf actual cmp))
               = (if sum_list (map budgeted cmp) > 0 then 1 else 0)"
    by (simp add: overallInsight_cases totalOf_sum_list)
  have pos: "(if sum_list (map budgeted cmp) > 0 then 1 else 0) < length (fst (generateInsights cmp st))"
    by (simp add: fst_generateInsights[OF assms] w(5) len)
  have nth: "fst (generateInsights cmp st) ! (if sum_list (map budgeted cmp) > 0 then 1 else 0) =
                     \<lparr> i_text = OverBudgetIn (category w) (actual w - budgeted w)
                                  (percentage (actual w - budgeted w) (budgeted w)),
                       i_type = warning \<rparr>"
    unfolding fst_generateInsights[OF assms] w(5) len[symmetric]
    by (simp add: nth_append)
  show "\<exists>w. w \<in> set cmp \<and> budgeted w > 0 \<and> actual w > budgeted w
                 \<and> (\<forall>r \<in> set cmp. budgeted r > 0 \<and> actual r > budgeted r
                        \<longrightarrow> actual r - budgeted r \<le> actual w - budgeted w)
                 \<and> (if sum_list (map budgeted cmp) > 0 then 1 else 0) < length (fst (generateInsights cmp st))
                 \<and> fst (generateInsights cmp st) ! (if sum_list (map budgeted cmp) > 0 then 1 else 0) =
                     \<lparr> i_text = OverBudgetIn (category w) (actual w - budgeted w)
                                  (percentage (actual w - budgeted w) (budgeted w)),
                       i_type = warning \<rparr>"
    using w(1-4) pos nth by blast
qed

theorem generateInsights_priority_witness:
  "[rowTransport, rowGroceries, rowHealth] \<noteq> []
   \<and> hd (fst (generateInsights [rowTransport, rowGroceries, rowHealth] sampleStats)) =
       \<lparr> i_text = UnderBudgetBy 15 (Percent 93), i_type = success \<rparr>
   \<and> fst (generateInsights [rowTransport, rowGroceries, rowHealth] sampleStats) ! 1 =
       \<lparr> i_text = OverBudgetIn ''Groceries'' 20 (Percent 20), i_type = warning \<rparr>"
proof -
  have ne: "[rowTransport, rowGroceries, rowHealth] \<noteq> []" by simp
  note inst = generateInsights_priority [OF ne, of sampleStats]
  have a: "hd (fst (generateInsights [rowTransport, rowGroceries, rowHealth] sampleStats)) =
       \<lparr> i_text = UnderBudgetBy 15 (Percent 93), i_type = success \<rparr>"
    using inst by (simp add: rowTransport_def rowGroceries_def rowHealth_def percentage_def Math_round_def)
  have b: "fst (generateInsights [rowTransport, rowGroceries, rowHealth] sampleStats) ! 1 =
       \<lparr> i_text = OverBudgetIn ''Groceries'' 20 (Percent 20), i_type = warning \<rparr>"
    using inst by (auto simp: rowTransport_def rowGroceries_def rowHealth_def percentage_def Math_round_def)
  show ?thesis using ne a b by simp
qed

lemma member_le_sum_list_nonneg:
  fixes f :: "'a \<Rightarrow> real"
  assumes "x \<in> set xs" "\<forall>y \<in> set xs. 0 \<le> f y"
  shows "f x \<le> sum_list (map f xs)"
  using assms
proof (induction xs)
  case Nil
  then show ?case by simp
next
  case (Cons a xs)
  have nn: "0 \<le> sum_list (map f xs)" using Cons.prems(2) by (intro sum_list_nonneg) auto
  show ?case
  proof (cases "x = a")
    case True
    with nn show ?thesis by simp
  next
    case False
    with Cons have "f x \<le> sum_list (map f xs)" by simp
    moreover have "0 \<le> f a" using Cons.prems(2) by simp
    ultimately show ?thesis by simp
  qed
qed

lemma overall_percent:
  "i \<in> set (overallInsight tb ta) \<Longrightarrow> shownPercent (i_text i) \<noteq> Some NaN_or_Infinity"
  by (auto simp: overallInsight_cases percentage_def split: if_splits)

lemma over_percent:
  "i \<in> set (overBudgetInsight cmp) \<Longrightarrow> shownPercent (i_text i) \<noteq> Some NaN_or_Infinity"
proof (cases "overBudgetItems cmp")
  case Nil
  assume "i \<in> set (overBudgetInsight cmp)"
  with Nil show ?thesis by (simp add: overBudgetInsight_def)
next
  case (Cons w ws)
  assume i: "i \<in> set (overBudgetInsight cmp)"
  have "w \<in> set (filter (\<lambda>item. budgeted item > 0 \<and> actual item > budgeted item) cmp)"
    using Cons sort_key_head[of _ _ w ws] unfolding overBudgetItems_def by blast
  then have "budgeted w \<noteq> 0" by simp
  with i Cons show ?thesis by (simp add: overBudgetInsight_def Let_def percentage_def)
qed

lemma under_percent:
  "i \<in> set (underBudgetInsight cmp) \<Longrightarrow> shownPercent (i_text i) \<noteq> Some NaN_or_Infinity"
proof (cases "underBudgetItems cmp")
  case Nil
  assume "i \<in> set (underBudgetInsight cmp)"
  with Nil show ?thesis by (simp add: underBudgetInsight_def)
next
  case (Cons w ws)
  assume i: "i \<in> set (underBudgetInsight cmp)"
  have "w \<in> set (filter (\<lambda>item. budgeted item > 0 \<and> actual item < budgeted item) cmp)"
    using Cons sort_key_head[of _ _ w ws] unfolding underBudgetItems_def by blast
  then have "budgeted w \<noteq> 0" by simp
  with i Cons show ?thesis by (simp add: underBudgetInsight_def Let_def percentage_def)
qed

lemma top_total_positive:
  assumes nn: "\<forall>r \<in> set cmp. 0 \<le> actual r"
    and i: "i \<in> set (topSpendingInsight (sortedByActual cmp) (totalOf actual cmp))"
  shows "0 < sum_list (map actual cmp)"
proof (cases "sortedByActual cmp")
  case Nil
  with i show ?thesis by (simp add: topSpendingInsight_def)
next
  case (Cons t ts)
  then have t: "t \<in> set cmp" using sort_key_head[of "\<lambda>item. - actual item" cmp t ts] by (simp add: sortedByActual_def)
  from i Cons have "0 < actual t" by (simp add: topSpendingInsight_def split: if_splits)
  moreover have "actual t \<le> sum_list (map actual cmp)"
    by (rule member_le_sum_list_nonneg[OF t nn])
  ultimately show ?thesis by linarith
qed

lemma top_percent:
  assumes nn: "\<forall>r \<in> set cmp. 0 \<le> actual r"
    and i: "i \<in> set (topSpendingInsight (sortedByActual cmp) (totalOf actual cmp))"
  shows "shownPercent (i_text i) \<noteq> Some NaN_or_Infinity"
proof -
  have "totalOf actual cmp \<noteq> 0" using top_total_positive[OF nn i] by (simp add: totalOf_sum_list)
  with i show ?thesis
    by (auto simp: topSpendingInsight_def Let_def percentage_def split: list.splits if_splits)
qed

lemma zero_percent:
  "i \<in> set (zeroSpendingInsight cmp) \<Longrightarrow> shownPercent (i_text i) \<noteq> Some NaN_or_Infinity"
  by (auto simp: zeroSpendingInsight_def Let_def split: if_splits)

lemma kinds_of_insights:
  "i \<in> set (overallInsight tb ta) \<Longrightarrow> \<not> (\<exists>c a p. i_text i = TopSpendingCategory c a p)"
  "i \<in> set (overBudgetInsight cmp) \<Longrightarrow> \<not> (\<exists>c a p. i_text i = TopSpendingCategory c a p)"
  "i \<in> set (underBudgetInsight cmp) \<Longrightarrow> \<not> (\<exists>c a p. i_text i = TopSpendingCategory c a p)"
  "i \<in> set (zeroSpendingInsight cmp) \<Longrightarrow> \<not> (\<exists>c a p. i_text i = TopSpendingCategory c a p)"
  by (auto simp: overallInsight_cases overBudgetInsight_def underBudgetInsight_def
        zeroSpendingInsight_def Let_def split: if_splits list.splits)

text \<open>
  C4. If every row has \<open>actual \<ge> 0\<close>, no emitted insight shows a percentage that is \<open>NaN\<close>
  or infinite, that is, none was computed with a zero denominator; in particular the total
  actual is positive whenever the top-spending insight is emitted.
\<close>

theorem generateInsights_no_NaN:
  assumes nn: "\<forall>r \<in> set cmp. 0 \<le> actual r"
  shows "(\<forall>i \<in> set (fst (generateInsights cmp st)).
            shownPercent (i_text i) \<noteq> Some NaN_or_Infinity)
         \<and> ((\<exists>i \<in> set (fst (generateInsights cmp st)). \<exists>c a p. i_text i = TopSpendingCategory c a p)
              \<longrightarrow> 0 < sum_list (map actual cmp))"
proof (cases "cmp = []")
  case True
  then show ?thesis by (simp add: generateInsights_def)
next
  case False
  note eq = fst_generateInsights[OF False, of st]
  have one: "\<forall>i \<in> set (fst (generateInsights cmp st)).
            shownPercent (i_text i) \<noteq> Some NaN_or_Infinity"
    unfolding eq
    using overall_percent over_percent under_percent top_percent[OF nn] zero_percent
    by (simp only: set_append Un_iff) blast
  have two: "(\<exists>i \<in> set (fst (generateInsights cmp st)). \<exists>c a p. i_text i = TopSpendingCategory c a p)
              \<longrightarrow> 0 < sum_list (map actual cmp)"
    unfolding eq
    using kinds_of_insights top_total_positive[OF nn]
    by (simp only: set_append Un_iff) blast
  show ?thesis using one two by simp
qed

theorem generateInsights_no_NaN_witness:
  "0 \<le> actual rowTransport \<and> 0 \<le> actual rowGroceries \<and> 0 \<le> actual rowHealth
   \<and> list_all (\<lambda>i. shownPercent (i_text i) \<noteq> Some NaN_or_Infinity)
         (fst (generateInsights [rowTransport, rowGroceries, rowHealth] sampleStats))"
proof -
  have h: "\<forall>r \<in> set [rowTransport, rowGroceries, rowHealth]. 0 \<le> actual r"
    by (simp add: rowTransport_def rowGroceries_def rowHealth_def)
  from generateInsights_no_NaN [OF h, of sampleStats] h show ?thesis
    by (simp add: list_all_iff)
qed

text \<open>
  C2 says that every aggregation function leaves the arrays passed to it unchanged, in
  contents and in element order. \<open>generateInsights\<close> does not: the step for the top
  spending category sorts the argument array in place, so the caller's array comes back
  ordered by descending \<open>actual\<close>. Here is the array after a call on two rows without a
  budget, of which the second has the larger \<open>actual\<close>.
\<close>

theorem generateInsights_reorders_argument:
  "snd (generateInsights [rowFood, rowRent] sampleStats) = [rowRent, rowFood]
   \<and> [rowRent, rowFood] \<noteq> [rowFood, rowRent]"
  by (simp add: generateInsights_def sortedByActual_def rowFood_def rowRent_def Let_def)

section \<open>Budget against actual spending\<close>


























section \<open>Grouping by month\<close>


















end
